theory Spec2Isabelle
  imports Complex_Main
begin

section \<open>Python values\<close>

text \<open>
  Python strings are modelled as \<^typ>\<open>string\<close>, one \<^typ>\<open>char\<close> per character, which
  covers the characters with code points below 256. Python floats are modelled as reals;
  the embedding stores them and performs no arithmetic on them. An argument with a
  default value is an \<^typ>\<open>'a option\<close>, \<open>None\<close> when the caller omits it.

  The dictionaries that the clients return as responses are values of \<open>pyval\<close>, a
  fragment of Python's values: \<open>None\<close>, booleans, integers, strings, \<open>bytes\<close>, lists and
  dictionaries in insertion order. The keys of a dictionary are the hashable ones among
  them, and are pairwise distinct in a dictionary that Python can build.
\<close>

datatype pykey = KNone | KBool bool | KInt int | KStr string | KBytes string

datatype pyval =
    PNone
  | PBool bool
  | PInt int
  | PStr string
  | PBytes string
  | PList "pyval list"
  | PDict "(pykey \<times> pyval) list"

datatype error = ValueError string | TypeError | KeyError pykey | RecursionError

text \<open>The subscription \<open>d[k]\<close>.\<close>

fun subscript :: "pyval \<Rightarrow> pykey \<Rightarrow> error + pyval" where
  "subscript (PDict kvs) k = (case map_of kvs k of None \<Rightarrow> Inl (KeyError k) | Some v \<Rightarrow> Inr v)"
| "subscript _ k = Inl TypeError"

section \<open>\<open>json.dumps(obj, indent=2)\<close> on the payloads of the examples\<close>












section \<open>Retry configuration and HTTP client (examples/integration-utils-http.py)\<close>

record RetryConfig =
  max_retries :: int
  backoff_factor :: real

definition RetryConfig_init :: "int option \<Rightarrow> real option \<Rightarrow> RetryConfig" where
  "RetryConfig_init max_retries' backoff_factor' =
     \<lparr>max_retries = (case max_retries' of None \<Rightarrow> 3 | Some m \<Rightarrow> m),
      backoff_factor = (case backoff_factor' of None \<Rightarrow> 2.0 | Some b \<Rightarrow> b)\<rparr>"

record HttpClient =
  base_url :: string
  timeout :: int
  headers :: "(string \<times> string) list"
  retry_config :: RetryConfig

text \<open>\<open>s.rstrip(chars)\<close>: every trailing character that occurs in \<open>chars\<close> is removed.\<close>

definition rstrip :: "string \<Rightarrow> string \<Rightarrow> string" where
  "rstrip chars s = rev (dropWhile (\<lambda>c. c \<in> set chars) (rev s))"

text \<open>
  \<open>headers or {}\<close> and \<open>retry_config or RetryConfig()\<close>: an absent or empty dictionary
  becomes a fresh empty one, an absent retry configuration the default one; an instance
  of \<open>RetryConfig\<close> is always true.
\<close>

definition HttpClient_init ::
  "string \<Rightarrow> int option \<Rightarrow> (string \<times> string) list option \<Rightarrow> RetryConfig option \<Rightarrow> HttpClient"
where
  "HttpClient_init base_url' timeout' headers' retry_config' =
     \<lparr>base_url = rstrip ''/'' base_url',
      timeout = (case timeout' of None \<Rightarrow> 30 | Some t \<Rightarrow> t),
      headers = (case headers' of None \<Rightarrow> [] | Some h \<Rightarrow> if h = [] then [] else h),
      retry_config = (case retry_config' of None \<Rightarrow> RetryConfig_init None None | Some r \<Rightarrow> r)\<rparr>"

text \<open>
  A call of a request method is described by the client after the call, the texts it has
  printed (one per call of \<open>print\<close>, without the line break that \<open>print\<close> appends) and
  what it returned or raised. The methods assign to no attribute of \<open>self\<close>. The
  \<open>main\<close> functions of the two example scripts only print what the methods return and
  are not modelled.
\<close>

record call =
  self_after :: HttpClient
  printed :: "string list"
  outcome :: "error + pyval"

text \<open>The local \<open>url = f"{self.base_url}{endpoint}"\<close> of the four methods.\<close>

definition request_url :: "HttpClient \<Rightarrow> string \<Rightarrow> string" where
  "request_url self endpoint = base_url self @ endpoint"

definition HttpClient_get :: "HttpClient \<Rightarrow> string \<Rightarrow> 'p \<Rightarrow> call" where
  "HttpClient_get self endpoint params =
     (let url = request_url self endpoint in
      \<lparr>self_after = self,
       printed = [''GET '' @ url],
       outcome = Inr (PDict
         [(KStr ''status_code'', PInt 200),
          (KStr ''data'', PDict [(KStr ''message'', PStr ''GET request successful''),
                                 (KStr ''endpoint'', PStr endpoint)])])\<rparr>)"

text \<open>
  \<open>post\<close> evaluates \<open>json.dumps(json_data, indent=2)\<close> for its second \<open>print\<close>, after
  the first one. The library function is the parameter \<open>dumps\<close>: it returns a text or
  raises, and \<open>post\<close> uses nothing else of it. The payload \<open>json_data\<close> is of any type.
\<close>

definition HttpClient_post ::
  "('p \<Rightarrow> error + string) \<Rightarrow> HttpClient \<Rightarrow> string \<Rightarrow> 'p \<Rightarrow> call"
where
  "HttpClient_post dumps self endpoint json_data =
     (let url = request_url self endpoint in
      case dumps json_data of
        Inl e \<Rightarrow> \<lparr>self_after = self, printed = [''POST '' @ url], outcome = Inl e\<rparr>
      | Inr text \<Rightarrow>
          \<lparr>self_after = self,
           printed = [''POST '' @ url, ''Data: '' @ text],
           outcome = Inr (PDict
             [(KStr ''status_code'', PInt 201),
              (KStr ''data'', PDict [(KStr ''message'', PStr ''POST request successful''),
                                     (KStr ''created'', PBool True)])])\<rparr>)"

definition HttpClient_put :: "HttpClient \<Rightarrow> string \<Rightarrow> 'p \<Rightarrow> call" where
  "HttpClient_put self endpoint json_data =
     (let url = request_url self endpoint in
      \<lparr>self_after = self,
       printed = [''PUT '' @ url],
       outcome = Inr (PDict
         [(KStr ''status_code'', PInt 200),
          (KStr ''data'', PDict [(KStr ''message'', PStr ''PUT request successful''),
                                 (KStr ''updated'', PBool True)])])\<rparr>)"

definition HttpClient_delete :: "HttpClient \<Rightarrow> string \<Rightarrow> call" where
  "HttpClient_delete self endpoint =
     (let url = request_url self endpoint in
      \<lparr>self_after = self,
       printed = [''DELETE '' @ url],
       outcome = Inr (PDict
         [(KStr ''status_code'', PInt 204),
          (KStr ''data'', PDict [(KStr ''message'', PStr ''DELETE request successful'')])])\<rparr>)"

section \<open>LLM client (examples/llm-wrappers-basic.py)\<close>

record LLMClient =
  provider :: string
  api_key :: "string option"

text \<open>
  \<open>str.upper\<close>. The upper-case form of a character with a code point below 256 can lie
  above 255 (of the micro sign and of y with diaeresis) or be two characters (of the sharp
  s), so the result, and with it the name of an environment variable, is a list of code
  points. The mapping works character by character.
\<close>

definition upper_char :: "char \<Rightarrow> nat list" where
  "upper_char c =
     (let n = (of_char c :: nat) in
      if 0x61 \<le> n \<and> n \<le> 0x7A then [n - 32]
      else if n = 0xB5 then [0x39C]
      else if n = 0xDF then [0x53, 0x53]
      else if 0xE0 \<le> n \<and> n \<le> 0xFE \<and> n \<noteq> 0xF7 then [n - 32]
      else if n = 0xFF then [0x178]
      else [n])"

definition upper :: "string \<Rightarrow> nat list" where
  "upper s = concat (map upper_char s)"

text \<open>The code points of a text, for the literal \<open>_API_KEY\<close> of the variable's name.\<close>

definition codepoints :: "string \<Rightarrow> nat list" where
  "codepoints s = map of_char s"

text \<open>\<open>os.getenv(name)\<close> reads the process environment, a parameter of the model.\<close>

definition getenv :: "(nat list \<rightharpoonup> string) \<Rightarrow> nat list \<Rightarrow> string option" where
  "getenv environ name = environ name"

text \<open>The truth value of an optional string: \<open>None\<close> and the empty string are false.\<close>

definition truthy :: "string option \<Rightarrow> bool" where
  "truthy x = (case x of None \<Rightarrow> False | Some s \<Rightarrow> s \<noteq> [])"

text \<open>
  \<open>api_key or os.getenv(...)\<close> evaluates the lookup only when \<open>api_key\<close> is false, and
  then yields the lookup's result, whatever it is.
\<close>

definition LLMClient_init ::
  "(nat list \<rightharpoonup> string) \<Rightarrow> string \<Rightarrow> string option \<Rightarrow> error + LLMClient"
where
  "LLMClient_init environ provider' api_key' =
     (let key = (if truthy api_key' then api_key'
                 else getenv environ (upper provider' @ codepoints ''_API_KEY''))
      in if \<not> truthy key then Inl (ValueError (''API key required for '' @ provider'))
         else Inr \<lparr>provider = provider', api_key = key\<rparr>)"

definition LLMClient_complete :: "LLMClient \<Rightarrow> string \<Rightarrow> int option \<Rightarrow> pyval" where
  "LLMClient_complete self prompt max_tokens' =
     (let max_tokens = (case max_tokens' of None \<Rightarrow> 100 | Some m \<Rightarrow> m) in
      PDict [(KStr ''text'', PStr (''[Response to: '' @ take 50 prompt @ ''...]'')),
             (KStr ''tokens_used'', PInt max_tokens),
             (KStr ''model'', PStr (provider self @ ''-model''))])"

section \<open>Doubled slashes in a URL\<close>

text \<open>
  The positions of a text at which a slash is directly followed by another slash, counted
  from \<open>i\<close> for the first character; the text contains a doubled slash when there is one.
\<close>

fun doubled_slashes_from :: "nat \<Rightarrow> string \<Rightarrow> nat list" where
  "doubled_slashes_from i (a # b # s) =
     (if a = CHR ''/'' \<and> b = CHR ''/'' then [i] else []) @ doubled_slashes_from (Suc i) (b # s)"
| "doubled_slashes_from i s = []"

definition doubled_slashes :: "string \<Rightarrow> nat list" where
  "doubled_slashes s = doubled_slashes_from 0 s"

section \<open>Auxiliary facts\<close>

subsection \<open>Key resolution\<close>

lemma truthy_simps:
  "truthy None = False" "truthy (Some s) = (s \<noteq> [])"
  by (simp_all add: truthy_def)

lemma LLMClient_init_explicit:
  "truthy k \<Longrightarrow> LLMClient_init env p k = Inr \<lparr>provider = p, api_key = k\<rparr>"
  by (simp add: LLMClient_init_def)

lemma LLMClient_init_lookup:
  "\<not> truthy k \<Longrightarrow> truthy (getenv env (upper p @ codepoints ''_API_KEY'')) \<Longrightarrow>
   LLMClient_init env p k =
     Inr \<lparr>provider = p, api_key = getenv env (upper p @ codepoints ''_API_KEY'')\<rparr>"
  by (simp add: LLMClient_init_def)

lemma LLMClient_init_raises:
  "\<not> truthy k \<Longrightarrow> \<not> truthy (getenv env (upper p @ codepoints ''_API_KEY'')) \<Longrightarrow>
   LLMClient_init env p k = Inl (ValueError (''API key required for '' @ p))"
  by (simp add: LLMClient_init_def)

text \<open>
  The names looked up for the providers of the example script, and beyond ASCII: \<open>e\<close> with
  acute accent becomes \<open>E\<close> with acute accent, the sharp s becomes \<open>SS\<close>, and \<open>y\<close> with
  diaeresis leaves the range of \<^typ>\<open>char\<close>.
\<close>

lemma upper_openai:
  "upper ''openai'' @ codepoints ''_API_KEY'' = codepoints ''OPENAI_API_KEY''"
  by code_simp

lemma upper_test_provider:
  "upper ''test_provider'' @ codepoints ''_API_KEY'' = codepoints ''TEST_PROVIDER_API_KEY''"
  by code_simp

lemma upper_latin1:
  "upper [CHR 0xE9] = [0xC9]"
  "upper [CHR 0xDF] = codepoints ''SS''"
  "upper [CHR 0xFF] = [0x178]"
  by code_simp+

lemma upper_e_acute:
  "upper [CHR 0xE9] @ codepoints ''_API_KEY'' = 0xC9 # codepoints ''_API_KEY''"
  by code_simp

text \<open>On the letters of ASCII the upper-case form is the letter 32 code points below.\<close>

lemma upper_char_ascii:
  "of_char c < (128 :: nat) \<Longrightarrow>
   upper_char c =
     (if 0x61 \<le> (of_char c :: nat) \<and> (of_char c :: nat) \<le> 0x7A then [of_char c - 32]
      else [of_char c])"
  by (simp add: upper_char_def Let_def)

subsection \<open>Trailing slashes\<close>

lemma dropWhile_replicate:
  "P c \<Longrightarrow> dropWhile P (replicate n c @ ys) = dropWhile P ys"
  by (induction n) simp_all

lemma rstrip_replicate:
  "c \<in> set chars \<Longrightarrow> rstrip chars (s @ replicate n c) = rstrip chars s"
  by (simp add: rstrip_def dropWhile_replicate)

lemma rstrip_example:
  "rstrip ''/'' (''https://api.example.com'' @ replicate n CHR ''/'') = ''https://api.example.com''"
proof -
  have "rstrip ''/'' (''https://api.example.com'' @ replicate n CHR ''/'')
          = rstrip ''/'' ''https://api.example.com''"
    by (rule rstrip_replicate) simp
  also have "\<dots> = ''https://api.example.com''"
    by (simp add: rstrip_def)
  finally show ?thesis .
qed

lemma rstrip_decompose: "\<exists>k. s = rstrip [c] s @ replicate k c"
proof (induction s rule: rev_induct)
  case Nil
  then show ?case by (simp add: rstrip_def)
next
  case (snoc x xs)
  show ?case
  proof (cases "x = c")
    case True
    from snoc obtain k where k: "xs = rstrip [c] xs @ replicate k c" by blast
    have "rstrip [c] (xs @ [x]) = rstrip [c] xs"
      using True by (simp add: rstrip_def)
    moreover have "xs @ [x] = rstrip [c] xs @ replicate (Suc k) c"
    proof -
      have "rstrip [c] xs @ replicate (Suc k) c = (rstrip [c] xs @ replicate k c) @ [c]"
        by (simp add: replicate_append_same)
      also have "\<dots> = xs @ [c]"
        by (simp only: k [symmetric])
      finally show ?thesis using True by simp
    qed
    ultimately show ?thesis by metis
  next
    case False
    then have "rstrip [c] (xs @ [x]) = xs @ [x]"
      by (simp add: rstrip_def)
    then have "xs @ [x] = rstrip [c] (xs @ [x]) @ replicate 0 c" by simp
    then show ?thesis by blast
  qed
qed

lemma rstrip_no_trailing: "rstrip chars s \<noteq> u @ [c] \<or> c \<notin> set chars"
proof (cases "c \<in> set chars")
  case False
  then show ?thesis by simp
next
  case True
  have "rstrip chars s \<noteq> u @ [c]"
  proof
    assume "rstrip chars s = u @ [c]"
    then have "dropWhile (\<lambda>c. c \<in> set chars) (rev s) = c # rev u"
      by (simp add: rstrip_def rev_swap)
    then have "\<not> (c \<in> set chars)"
      by (metis (mono_tags, lifting) hd_dropWhile list.sel(1) list.simps(3))
    with True show False by simp
  qed
  then show ?thesis by simp
qed

lemma base_url_init: "base_url (HttpClient_init base t h r) = rstrip ''/'' base"
  by (simp add: HttpClient_init_def)

subsection \<open>Doubled slashes\<close>

text \<open>
  \<open>doubled_slashes\<close> lists exactly the indices at which a slash is followed by a slash.
\<close>

lemma doubled_slashes_from_set:
  "set (doubled_slashes_from i s) =
     {i + j | j. Suc j < length s \<and> s ! j = CHR ''/'' \<and> s ! Suc j = CHR ''/''}"
proof (induction i s rule: doubled_slashes_from.induct)
  case (1 i a b s)
  have "{i + j | j. Suc j < length (a # b # s) \<and> (a # b # s) ! j = CHR ''/'' \<and> (a # b # s) ! Suc j = CHR ''/''}
      = (if a = CHR ''/'' \<and> b = CHR ''/'' then {i} else {})
        \<union> {Suc i + j | j. Suc j < length (b # s) \<and> (b # s) ! j = CHR ''/'' \<and> (b # s) ! Suc j = CHR ''/''}"
    (is "?L = ?R")
  proof (intro set_eqI iffI)
    fix x assume "x \<in> ?L"
    then obtain j where j: "x = i + j" "Suc j < length (a # b # s)"
      "(a # b # s) ! j = CHR ''/''" "(a # b # s) ! Suc j = CHR ''/''" by blast
    show "x \<in> ?R"
    proof (cases j)
      case 0
      with j show ?thesis by simp
    next
      case (Suc j')
      with j have "x = Suc i + j' \<and> Suc j' < length (b # s) \<and> (b # s) ! j' = CHR ''/'' \<and> (b # s) ! Suc j' = CHR ''/''"
        by simp
      then show ?thesis by blast
    qed
  next
    fix x assume "x \<in> ?R"
    then consider "a = CHR ''/''" "b = CHR ''/''" "x = i"
      | j where "x = Suc i + j" "Suc j < length (b # s)" "(b # s) ! j = CHR ''/''" "(b # s) ! Suc j = CHR ''/''"
      by (auto split: if_splits)
    then show "x \<in> ?L"
    proof cases
      case 1
      then have "x = i + 0 \<and> Suc 0 < length (a # b # s) \<and> (a # b # s) ! 0 = CHR ''/'' \<and> (a # b # s) ! Suc 0 = CHR ''/''"
        by simp
      then show ?thesis by blast
    next
      case 2
      then have "x = i + Suc j \<and> Suc (Suc j) < length (a # b # s) \<and> (a # b # s) ! Suc j = CHR ''/'' \<and> (a # b # s) ! Suc (Suc j) = CHR ''/''"
        by simp
      then show ?thesis by blast
    qed
  qed
  then have eq: "?L = ?R" .
  have step: "set (doubled_slashes_from i (a # b # s)) =
      (if a = CHR ''/'' \<and> b = CHR ''/'' then {i} else {})
      \<union> set (doubled_slashes_from (Suc i) (b # s))"
    by (cases "a = CHR ''/'' \<and> b = CHR ''/''") auto
  show ?case
    by (simp only: step "1.IH" eq)
qed simp_all

lemma doubled_slashes_set:
  "set (doubled_slashes s) = {j. Suc j < length s \<and> s ! j = CHR ''/'' \<and> s ! Suc j = CHR ''/''}"
  by (simp add: doubled_slashes_def doubled_slashes_from_set)

lemma example_url_slashes: "doubled_slashes ''https://api.example.com/users'' = [6]"
  by (simp add: doubled_slashes_def)

lemma example_base_slashes: "doubled_slashes ''https://api.example.com'' = [6]"
  by (simp add: doubled_slashes_def)

lemma example_path_slashes: "doubled_slashes (drop 8 ''https://api.example.com/users'') = []"
  by (simp add: doubled_slashes_def)

text \<open>
  The join of a stored base and an endpoint is no doubled slash: the last character of the
  stored base is not a slash.
\<close>

lemma join_is_no_doubled_slash:
  "j \<in> set (doubled_slashes (rstrip ''/'' base @ endpoint)) \<Longrightarrow> Suc j \<noteq> length (rstrip ''/'' base)"
proof
  assume j: "j \<in> set (doubled_slashes (rstrip ''/'' base @ endpoint))"
    and len: "Suc j = length (rstrip ''/'' base)"
  from j have "(rstrip ''/'' base @ endpoint) ! j = CHR ''/''"
    by (simp add: doubled_slashes_set)
  with len have at: "rstrip ''/'' base ! j = CHR ''/''"
    by (simp add: nth_append)
  from len have ne: "rstrip ''/'' base \<noteq> []" by auto
  then have "rstrip ''/'' base = butlast (rstrip ''/'' base) @ [last (rstrip ''/'' base)]"
    by simp
  moreover from len at have "last (rstrip ''/'' base) = CHR ''/''"
    using ne by (metis diff_Suc_1 last_conv_nth)
  ultimately have "rstrip ''/'' base = butlast (rstrip ''/'' base) @ [CHR ''/'']"
    by simp
  with rstrip_no_trailing [of "''/''" base "butlast (rstrip ''/'' base)" "CHR ''/''"]
  show False by simp
qed

subsection \<open>The encoder and \<open>post\<close>\<close>









section \<open>The claims\<close>

text \<open>
  Claim C1. Constructing an \<open>LLMClient\<close> raises \<open>ValueError\<close> exactly when no API key
  can be resolved, that is, when the explicit \<open>api_key\<close> argument is false (absent or
  empty) and the lookup of the upper-cased provider name followed by \<open>_API_KEY\<close> in the
  environment is false as well, and the error is the one with the message
  \<open>API key required for <provider>\<close>. When the explicit argument is a key, construction
  succeeds and stores it, whatever the environment holds; when only the lookup yields a
  key, construction succeeds and stores that one.
\<close>

theorem LLMClient_init_key_resolution:
  "((\<exists>e. LLMClient_init env p k = Inl e) \<longleftrightarrow>
      \<not> truthy k \<and> \<not> truthy (getenv env (upper p @ codepoints ''_API_KEY'')))
   \<and> (\<not> truthy k \<and> \<not> truthy (getenv env (upper p @ codepoints ''_API_KEY'')) \<longrightarrow>
        LLMClient_init env p k = Inl (ValueError (''API key required for '' @ p)))
   \<and> (truthy k \<longrightarrow> LLMClient_init env p k = Inr \<lparr>provider = p, api_key = k\<rparr>)
   \<and> (\<not> truthy k \<and> truthy (getenv env (upper p @ codepoints ''_API_KEY'')) \<longrightarrow>
        LLMClient_init env p k =
          Inr \<lparr>provider = p, api_key = getenv env (upper p @ codepoints ''_API_KEY'')\<rparr>)"
proof -
  consider (explicit) "truthy k"
    | (lookup) "\<not> truthy k" "truthy (getenv env (upper p @ codepoints ''_API_KEY''))"
    | (none) "\<not> truthy k" "\<not> truthy (getenv env (upper p @ codepoints ''_API_KEY''))"
    by blast
  then show ?thesis
  proof cases
    case explicit
    then show ?thesis using LLMClient_init_explicit [of k env p] by simp
  next
    case lookup
    then show ?thesis using LLMClient_init_lookup [of k env p] by simp
  next
    case none
    then show ?thesis using LLMClient_init_raises [of k env p] by simp
  qed
qed

text \<open>
  The theorem at the providers of the example script and at a provider beyond ASCII,
  \<open>e\<close> with acute accent, whose key is found under \<open>E\<close> with acute accent followed by
  \<open>_API_KEY\<close>.
\<close>

theorem LLMClient_init_key_resolution_witness:
  "(\<not> truthy None
    \<and> \<not> truthy (getenv Map.empty (upper ''test_provider'' @ codepoints ''_API_KEY''))
    \<and> LLMClient_init Map.empty ''test_provider'' None =
        Inl (ValueError ''API key required for test_provider''))
   \<and> (truthy (Some ''sk-explicit'')
      \<and> LLMClient_init [codepoints ''OPENAI_API_KEY'' \<mapsto> ''sk-example-key-not-real'']
            ''openai'' (Some ''sk-explicit'') =
          Inr \<lparr>provider = ''openai'', api_key = Some ''sk-explicit''\<rparr>)
   \<and> (\<not> truthy None
      \<and> truthy (getenv [codepoints ''OPENAI_API_KEY'' \<mapsto> ''sk-example-key-not-real'']
                  (upper ''openai'' @ codepoints ''_API_KEY''))
      \<and> LLMClient_init [codepoints ''OPENAI_API_KEY'' \<mapsto> ''sk-example-key-not-real'']
            ''openai'' None =
          Inr \<lparr>provider = ''openai'', api_key = Some ''sk-example-key-not-real''\<rparr>)
   \<and> (truthy (getenv [0xC9 # codepoints ''_API_KEY'' \<mapsto> ''sk-accent'']
                  (upper [CHR 0xE9] @ codepoints ''_API_KEY''))
      \<and> LLMClient_init [0xC9 # codepoints ''_API_KEY'' \<mapsto> ''sk-accent''] [CHR 0xE9] None =
          Inr \<lparr>provider = [CHR 0xE9], api_key = Some ''sk-accent''\<rparr>)
   \<and> (\<not> truthy (getenv [0xE9 # codepoints ''_API_KEY'' \<mapsto> ''sk-accent'']
                  (upper [CHR 0xE9] @ codepoints ''_API_KEY''))
      \<and> LLMClient_init [0xE9 # codepoints ''_API_KEY'' \<mapsto> ''sk-accent''] [CHR 0xE9] None =
          Inl (ValueError (''API key required for '' @ [CHR 0xE9])))"
  using LLMClient_init_key_resolution [of Map.empty "''test_provider''" None]
    LLMClient_init_key_resolution
      [of "[codepoints ''OPENAI_API_KEY'' \<mapsto> ''sk-example-key-not-real'']" "''openai''"
          "Some ''sk-explicit''"]
    LLMClient_init_key_resolution
      [of "[codepoints ''OPENAI_API_KEY'' \<mapsto> ''sk-example-key-not-real'']" "''openai''" None]
    LLMClient_init_key_resolution
      [of "[0xC9 # codepoints ''_API_KEY'' \<mapsto> ''sk-accent'']" "[CHR 0xE9]" None]
    LLMClient_init_key_resolution
      [of "[0xE9 # codepoints ''_API_KEY'' \<mapsto> ''sk-accent'']" "[CHR 0xE9]" None]
  by (auto simp add: truthy_simps getenv_def upper_openai upper_test_provider upper_e_acute)

text \<open>
  Claim C2. The request URL is the base URL as stored at construction followed by the
  endpoint, and the stored base URL is the given one without its trailing slashes: the
  given base is the stored one followed by slashes only, and the stored one does not end
  in a slash. \<open>get\<close> prints that URL. For the base \<open>https://api.example.com\<close> followed by
  any number of slashes and the endpoint \<open>/users\<close> the URL is
  \<open>https://api.example.com/users\<close>: joining base and endpoint yields no doubled slash,
  for after the scheme \<open>https://\<close> the URL has none, and the doubled slashes of the URL
  are those of the given base, the one of its scheme.
\<close>

theorem request_url_concat:
  "request_url (HttpClient_init base t h r) endpoint = rstrip ''/'' base @ endpoint
   \<and> (\<exists>k. base = rstrip ''/'' base @ replicate k CHR ''/'')
   \<and> (\<forall>u. rstrip ''/'' base \<noteq> u @ ''/'')
   \<and> printed (HttpClient_get (HttpClient_init base t h r) endpoint p)
        = [''GET '' @ rstrip ''/'' base @ endpoint]
   \<and> request_url (HttpClient_init (''https://api.example.com'' @ replicate n CHR ''/'') t h r) ''/users''
        = ''https://api.example.com/users''
   \<and> take 8
        (request_url (HttpClient_init (''https://api.example.com'' @ replicate n CHR ''/'') t h r) ''/users'')
        = ''https://''
   \<and> doubled_slashes (drop 8
        (request_url (HttpClient_init (''https://api.example.com'' @ replicate n CHR ''/'') t h r) ''/users''))
        = []
   \<and> doubled_slashes
        (request_url (HttpClient_init (''https://api.example.com'' @ replicate n CHR ''/'') t h r) ''/users'')
        = doubled_slashes ''https://api.example.com''"
proof -
  have a: "request_url (HttpClient_init base t h r) endpoint = rstrip ''/'' base @ endpoint"
    by (simp only: request_url_def base_url_init)
  have b: "\<exists>k. base = rstrip ''/'' base @ replicate k CHR ''/''"
    by (rule rstrip_decompose)
  have c: "\<forall>u. rstrip ''/'' base \<noteq> u @ ''/''"
    using rstrip_no_trailing [of "''/''" base _ "CHR ''/''"] by simp
  have d: "printed (HttpClient_get (HttpClient_init base t h r) endpoint p)
        = [''GET '' @ rstrip ''/'' base @ endpoint]"
    by (simp add: HttpClient_get_def request_url_def base_url_init)
  have e: "request_url (HttpClient_init (''https://api.example.com'' @ replicate n CHR ''/'') t h r) ''/users''
        = ''https://api.example.com/users''"
    by (simp only: request_url_def base_url_init rstrip_example) simp
  have f: "take 8 ''https://api.example.com/users'' = ''https://''"
    by simp
  have g: "doubled_slashes ''https://api.example.com/users'' = doubled_slashes ''https://api.example.com''"
    by (simp only: example_url_slashes example_base_slashes)
  show ?thesis
    by (simp only: a b c d e f g example_path_slashes) simp
qed




text \<open>
  Claim C4. For every prompt and every \<open>max_tokens\<close>, \<open>complete\<close> returns a dictionary
  whose \<open>text\<close> is \<open>[Response to: \<close> followed by the first 50 characters of the prompt
  and \<open>...]\<close>, whose \<open>tokens_used\<close> is the requested \<open>max_tokens\<close> itself, and whose
  \<open>model\<close> is the provider name followed by \<open>-model\<close>. Without \<open>max_tokens\<close> the budget
  is 100.
\<close>

theorem complete_response:
  "subscript (LLMClient_complete c prompt (Some m)) (KStr ''text'')
     = Inr (PStr (''[Response to: '' @ take 50 prompt @ ''...]''))
   \<and> subscript (LLMClient_complete c prompt (Some m)) (KStr ''tokens_used'') = Inr (PInt m)
   \<and> subscript (LLMClient_complete c prompt (Some m)) (KStr ''model'')
     = Inr (PStr (provider c @ ''-model''))
   \<and> subscript (LLMClient_complete c prompt None) (KStr ''tokens_used'') = Inr (PInt 100)
   \<and> LLMClient_complete c prompt None = LLMClient_complete c prompt (Some 100)"
  by (simp add: LLMClient_complete_def)

text \<open>
  Claim C6. A \<open>RetryConfig\<close> constructed without arguments has \<open>max_retries = 3\<close> and
  \<open>backoff_factor = 2.0\<close>, and an \<open>HttpClient\<close> constructed without a \<open>retry_config\<close>
  holds a \<open>RetryConfig\<close> with these defaults.
\<close>

theorem retry_config_defaults:
  "max_retries (RetryConfig_init None None) = 3
   \<and> backoff_factor (RetryConfig_init None None) = 2.0
   \<and> retry_config (HttpClient_init base t h None) = RetryConfig_init None None
   \<and> max_retries (retry_config (HttpClient_init base t h None)) = 3
   \<and> backoff_factor (retry_config (HttpClient_init base t h None)) = 2.0"
  by (simp add: RetryConfig_init_def HttpClient_init_def)

text \<open>
  Claim C7. The constructor of \<open>RetryConfig\<close> checks nothing: for every
  \<open>backoff_factor\<close>, also one below 1.0 or negative, it returns the configuration that
  stores the value as given, and an \<open>HttpClient\<close> accepts such a configuration unchanged.
\<close>

theorem backoff_factor_not_validated:
  "RetryConfig_init (Some m) (Some b) = \<lparr>max_retries = m, backoff_factor = b\<rparr>
   \<and> backoff_factor (RetryConfig_init None (Some b)) = b
   \<and> backoff_factor (RetryConfig_init None (Some 0.5)) = 0.5
   \<and> backoff_factor (RetryConfig_init None (Some (- 1))) = - 1
   \<and> backoff_factor (retry_config (HttpClient_init base t h (Some (RetryConfig_init None (Some 0.5))))) = 0.5"
  by (simp add: RetryConfig_init_def HttpClient_init_def)

text \<open>
  Claim C8. Two clients that differ only in the timeout given at construction (or omitted
  there), or in the value of their \<open>timeout\<close> attribute, behave alike: each of \<open>get\<close>,
  \<open>post\<close>, \<open>put\<close> and \<open>delete\<close> returns or raises the same and prints the same for the
  same arguments.
\<close>

theorem timeout_independence:
  "outcome (HttpClient_get (HttpClient_init base t1 h r) e p)
     = outcome (HttpClient_get (HttpClient_init base t2 h r) e p)
   \<and> printed (HttpClient_get (HttpClient_init base t1 h r) e p)
     = printed (HttpClient_get (HttpClient_init base t2 h r) e p)
   \<and> outcome (HttpClient_post dumps (HttpClient_init base t1 h r) e d)
     = outcome (HttpClient_post dumps (HttpClient_init base t2 h r) e d)
   \<and> printed (HttpClient_post dumps (HttpClient_init base t1 h r) e d)
     = printed (HttpClient_post dumps (HttpClient_init base t2 h r) e d)
   \<and> outcome (HttpClient_put (HttpClient_init base t1 h r) e d)
     = outcome (HttpClient_put (HttpClient_init base t2 h r) e d)
   \<and> printed (HttpClient_put (HttpClient_init base t1 h r) e d)
     = printed (HttpClient_put (HttpClient_init base t2 h r) e d)
   \<and> outcome (HttpClient_delete (HttpClient_init base t1 h r) e)
     = outcome (HttpClient_delete (HttpClient_init base t2 h r) e)
   \<and> printed (HttpClient_delete (HttpClient_init base t1 h r) e)
     = printed (HttpClient_delete (HttpClient_init base t2 h r) e)
   \<and> outcome (HttpClient_get (c\<lparr>timeout := t\<rparr>) e p) = outcome (HttpClient_get c e p)
   \<and> printed (HttpClient_get (c\<lparr>timeout := t\<rparr>) e p) = printed (HttpClient_get c e p)
   \<and> outcome (HttpClient_post dumps (c\<lparr>timeout := t\<rparr>) e d) = outcome (HttpClient_post dumps c e d)
   \<and> printed (HttpClient_post dumps (c\<lparr>timeout := t\<rparr>) e d) = printed (HttpClient_post dumps c e d)
   \<and> outcome (HttpClient_put (c\<lparr>timeout := t\<rparr>) e d) = outcome (HttpClient_put c e d)
   \<and> printed (HttpClient_put (c\<lparr>timeout := t\<rparr>) e d) = printed (HttpClient_put c e d)
   \<and> outcome (HttpClient_delete (c\<lparr>timeout := t\<rparr>) e) = outcome (HttpClient_delete c e)
   \<and> printed (HttpClient_delete (c\<lparr>timeout := t\<rparr>) e) = printed (HttpClient_delete c e)"
proof -
  have post: "outcome (HttpClient_post dumps c' e d) = outcome (HttpClient_post dumps c'' e d)
      \<and> printed (HttpClient_post dumps c' e d) = printed (HttpClient_post dumps c'' e d)"
    if "base_url c' = base_url c''" for c' c''
    using that by (cases "dumps d") (simp_all add: HttpClient_post_def request_url_def)
  have others: "outcome (HttpClient_get c' e p) = outcome (HttpClient_get c'' e p)
      \<and> printed (HttpClient_get c' e p) = printed (HttpClient_get c'' e p)
      \<and> outcome (HttpClient_put c' e d) = outcome (HttpClient_put c'' e d)
      \<and> printed (HttpClient_put c' e d) = printed (HttpClient_put c'' e d)
      \<and> outcome (HttpClient_delete c' e) = outcome (HttpClient_delete c'' e)
      \<and> printed (HttpClient_delete c' e) = printed (HttpClient_delete c'' e)"
    if "base_url c' = base_url c''" for c' c''
    using that
    by (simp add: HttpClient_get_def HttpClient_put_def HttpClient_delete_def request_url_def)
  have i: "base_url (HttpClient_init base t1 h r) = base_url (HttpClient_init base t2 h r)"
    by (simp add: base_url_init)
  have u: "base_url (c\<lparr>timeout := t\<rparr>) = base_url c"
    by simp
  from post [OF i] others [OF i] post [OF u] others [OF u] show ?thesis
    by blast
qed

text \<open>
  Claim C9. An empty string as the explicit \<open>api_key\<close> is treated as no key at all: the
  constructor behaves as it does without the argument, so it takes the key from the
  environment when the lookup yields one, and raises the \<open>ValueError\<close> when the lookup
  yields nothing or an empty string.
\<close>

theorem empty_api_key_is_no_key:
  "LLMClient_init env p (Some []) = LLMClient_init env p None
   \<and> (truthy (getenv env (upper p @ codepoints ''_API_KEY'')) \<longrightarrow>
        LLMClient_init env p (Some []) =
          Inr \<lparr>provider = p, api_key = getenv env (upper p @ codepoints ''_API_KEY'')\<rparr>)
   \<and> (getenv env (upper p @ codepoints ''_API_KEY'') = None
       \<or> getenv env (upper p @ codepoints ''_API_KEY'') = Some [] \<longrightarrow>
        LLMClient_init env p (Some []) = Inl (ValueError (''API key required for '' @ p)))"
  by (auto simp add: LLMClient_init_def truthy_simps)

theorem empty_api_key_is_no_key_witness:
  "(truthy (getenv [codepoints ''OPENAI_API_KEY'' \<mapsto> ''sk-example-key-not-real'']
              (upper ''openai'' @ codepoints ''_API_KEY''))
    \<and> LLMClient_init [codepoints ''OPENAI_API_KEY'' \<mapsto> ''sk-example-key-not-real'']
          ''openai'' (Some []) =
        Inr \<lparr>provider = ''openai'', api_key = Some ''sk-example-key-not-real''\<rparr>)
   \<and> (getenv [codepoints ''OPENAI_API_KEY'' \<mapsto> []] (upper ''openai'' @ codepoints ''_API_KEY'')
        = Some []
      \<and> LLMClient_init [codepoints ''OPENAI_API_KEY'' \<mapsto> []] ''openai'' (Some []) =
          Inl (ValueError ''API key required for openai''))
   \<and> (getenv Map.empty (upper ''openai'' @ codepoints ''_API_KEY'') = None
      \<and> LLMClient_init Map.empty ''openai'' (Some []) =
          Inl (ValueError ''API key required for openai''))"
  using empty_api_key_is_no_key
      [of "[codepoints ''OPENAI_API_KEY'' \<mapsto> ''sk-example-key-not-real'']" "''openai''"]
    empty_api_key_is_no_key [of "[codepoints ''OPENAI_API_KEY'' \<mapsto> []]" "''openai''"]
    empty_api_key_is_no_key [of Map.empty "''openai''"]
  by (auto simp add: truthy_simps getenv_def upper_openai)

text \<open>
  Claim C10. Every request method leaves the client as it was: after \<open>get\<close>, \<open>post\<close>
  (whether it returns or raises), \<open>put\<close> or \<open>delete\<close> the client's \<open>base_url\<close>,
  \<open>timeout\<close>, \<open>headers\<close> and \<open>retry_config\<close> are what they were before the call.
\<close>

theorem requests_preserve_client:
  "self_after (HttpClient_get c e p) = c
   \<and> self_after (HttpClient_post dumps c e d) = c
   \<and> self_after (HttpClient_put c e d) = c
   \<and> self_after (HttpClient_delete c e) = c
   \<and> base_url (self_after (HttpClient_get c e p)) = base_url c
   \<and> timeout (self_after (HttpClient_get c e p)) = timeout c
   \<and> headers (self_after (HttpClient_get c e p)) = headers c
   \<and> retry_config (self_after (HttpClient_get c e p)) = retry_config c
   \<and> base_url (self_after (HttpClient_post dumps c e d)) = base_url c
   \<and> timeout (self_after (HttpClient_post dumps c e d)) = timeout c
   \<and> headers (self_after (HttpClient_post dumps c e d)) = headers c
   \<and> retry_config (self_after (HttpClient_post dumps c e d)) = retry_config c
   \<and> base_url (self_after (HttpClient_put c e d)) = base_url c
   \<and> timeout (self_after (HttpClient_put c e d)) = timeout c
   \<and> headers (self_after (HttpClient_put c e d)) = headers c
   \<and> retry_config (self_after (HttpClient_put c e d)) = retry_config c
   \<and> base_url (self_after (HttpClient_delete c e)) = base_url c
   \<and> timeout (self_after (HttpClient_delete c e)) = timeout c
   \<and> headers (self_after (HttpClient_delete c e)) = headers c
   \<and> retry_config (self_after (HttpClient_delete c e)) = retry_config c"
proof -
  have post: "self_after (HttpClient_post dumps c e d) = c"
    by (cases "dumps d") (simp_all add: HttpClient_post_def)
  have "self_after (HttpClient_get c e p) = c"
    and "self_after (HttpClient_put c e d) = c"
    and "self_after (HttpClient_delete c e) = c"
    by (simp_all add: HttpClient_get_def HttpClient_put_def HttpClient_delete_def)
  with post show ?thesis by simp
qed

end
